theory Spec2Isabelle
  imports Main "HOL-Library.Word" "HOL-Library.Monad_Syntax"
begin

unbundle bit_operations_syntax

section \<open>The machine: an ILP32 heap of bytes\<close>

text \<open>
  \<^verbatim>\<open>mm.c\<close> reads and writes memory through \<^verbatim>\<open>*(size_t *)(p)\<close> with
  \<^verbatim>\<open>WSIZE = 4\<close>, stores pointers in the same words, and documents its boundary tags
  as bits 31..0: it is written for a machine whose \<^verbatim>\<open>size_t\<close> and pointers are
  32 bits wide. Addresses and words are \<open>32 word\<close>, so pointer and size arithmetic wraps
  modulo \<open>2 ^ 32\<close>. Memory is an array of bytes indexed by address; a word is four
  consecutive bytes, least significant first. Loads and stores are total: an access
  outside the region obtained from the heap provider is not trapped.
\<close>

type_synonym addr = "32 word"
type_synonym byte = "8 word"

record state =
  mem :: "addr \<Rightarrow> byte"
  heap_listp :: addr
  free_listp :: addr
  mem_start_brk :: addr
  mem_brk :: addr
  mem_max_addr :: addr

datatype error = Exit int

definition load32 :: "(addr \<Rightarrow> byte) \<Rightarrow> addr \<Rightarrow> 32 word" where
  "load32 m p = word_cat (m (p + 3)) (word_cat (m (p + 2)) (word_cat (m (p + 1)) (m p) :: 16 word) :: 24 word)"

definition store32 :: "(addr \<Rightarrow> byte) \<Rightarrow> addr \<Rightarrow> 32 word \<Rightarrow> (addr \<Rightarrow> byte)" where
  "store32 m p v = m(p := ucast v, p + 1 := ucast (drop_bit 8 v),
                     p + 2 := ucast (drop_bit 16 v), p + 3 := ucast (drop_bit 24 v))"

subsection \<open>Basic constants and macros\<close>

definition WSIZE :: "32 word" where "WSIZE = 4"
definition DSIZE :: "32 word" where "DSIZE = 8"
definition CHUNKSIZE :: "32 word" where "CHUNKSIZE = 32"
definition OVERHEAD :: "32 word" where "OVERHEAD = 32"
definition NULL :: addr where "NULL = 0"

definition MAX_macro :: "32 word \<Rightarrow> 32 word \<Rightarrow> 32 word" where
  "MAX_macro x y = (if x > y then x else y)"

definition PACK :: "32 word \<Rightarrow> 32 word \<Rightarrow> 32 word" where
  "PACK sz alloc = sz OR alloc"

definition GET :: "state \<Rightarrow> addr \<Rightarrow> 32 word" where
  "GET s p = load32 (mem s) p"

definition PUT :: "addr \<Rightarrow> 32 word \<Rightarrow> state \<Rightarrow> state" where
  "PUT p val s = s\<lparr>mem := store32 (mem s) p val\<rparr>"

definition GET_SIZE :: "state \<Rightarrow> addr \<Rightarrow> 32 word" where
  "GET_SIZE s p = GET s p AND NOT 7"

definition GET_ALLOC :: "state \<Rightarrow> addr \<Rightarrow> 32 word" where
  "GET_ALLOC s p = GET s p AND 1"

definition HDRP :: "addr \<Rightarrow> addr" where
  "HDRP bp = bp - WSIZE"

definition FTRP :: "state \<Rightarrow> addr \<Rightarrow> addr" where
  "FTRP s bp = bp + GET_SIZE s (HDRP bp) - DSIZE"

definition NEXT_BLKP :: "state \<Rightarrow> addr \<Rightarrow> addr" where
  "NEXT_BLKP s bp = bp + GET_SIZE s (bp - WSIZE)"

definition PREV_BLKP :: "state \<Rightarrow> addr \<Rightarrow> addr" where
  "PREV_BLKP s bp = bp - GET_SIZE s (bp - DSIZE)"

definition NEXT_FREE :: "state \<Rightarrow> addr \<Rightarrow> addr" where
  "NEXT_FREE s bp = GET s (bp + 2 * WSIZE)"

definition PREV_FREE :: "state \<Rightarrow> addr \<Rightarrow> addr" where
  "PREV_FREE s bp = GET s bp"

definition set_NEXT_FREE :: "addr \<Rightarrow> addr \<Rightarrow> state \<Rightarrow> state" where
  "set_NEXT_FREE bp v s = PUT (bp + 2 * WSIZE) v s"

definition set_PREV_FREE :: "addr \<Rightarrow> addr \<Rightarrow> state \<Rightarrow> state" where
  "set_PREV_FREE bp v s = PUT bp v s"

subsection \<open>The raw heap provider\<close>

text \<open>
  Modelled from the spec: the Raw Heap Provider (\<^verbatim>\<open>mem_sbrk\<close>, \<^verbatim>\<open>mem_heap_lo\<close>,
  \<^verbatim>\<open>mem_heap_hi\<close> of \<^verbatim>\<open>memlib.c\<close>, which is not among the sources). It "supplies
  growable contiguous memory; failure returns a sentinel": the region runs from
  \<open>mem_start_brk\<close> up to \<open>mem_brk\<close> and may grow up to \<open>mem_max_addr\<close>. A request
  that does not fit fails and changes nothing; the sentinel is \<^verbatim>\<open>(void *)-1\<close>, the
  value \<^verbatim>\<open>extend_heap\<close> tests for. A request that fits returns the old break.
\<close>

definition mem_sbrk :: "32 word \<Rightarrow> state \<Rightarrow> addr \<times> state" where
  "mem_sbrk incr s =
     (if unat (mem_brk s) + unat incr > unat (mem_max_addr s) then (- 1, s)
      else (mem_brk s, s\<lparr>mem_brk := mem_brk s + incr\<rparr>))"

definition mem_heap_lo :: "state \<Rightarrow> addr" where
  "mem_heap_lo s = mem_start_brk s"

definition mem_heap_hi :: "state \<Rightarrow> addr" where
  "mem_heap_hi s = mem_brk s - 1"

subsection \<open>The free list\<close>

definition freelist :: "addr \<Rightarrow> state \<Rightarrow> state" where
  "freelist bp s =
     (let s1 = set_NEXT_FREE bp (free_listp s) s;
          s2 = set_PREV_FREE (free_listp s1) bp s1;
          s3 = set_PREV_FREE bp NULL s2
      in s3\<lparr>free_listp := bp\<rparr>)"

definition delete_block :: "addr \<Rightarrow> state \<Rightarrow> state" where
  "delete_block bp s =
     (let s1 = (if PREV_FREE s bp \<noteq> NULL
                then set_NEXT_FREE (PREV_FREE s bp) (NEXT_FREE s bp) s
                else s\<lparr>free_listp := NEXT_FREE s bp\<rparr>)
      in set_PREV_FREE (NEXT_FREE s1 bp) (PREV_FREE s1 bp) s1)"

subsection \<open>Coalescing, placement, heap growth\<close>

definition coalesce :: "addr \<Rightarrow> state \<Rightarrow> addr \<times> state" where
  "coalesce bp s =
     (let prev_alloc = (if GET_ALLOC s (FTRP s (PREV_BLKP s bp)) \<noteq> 0 then True
                        else PREV_BLKP s bp = bp);
          next_alloc = (GET_ALLOC s (HDRP (NEXT_BLKP s bp)) \<noteq> 0);
          sz = GET_SIZE s (HDRP bp)
      in if prev_alloc \<and> next_alloc then (bp, freelist bp s)
         else if prev_alloc \<and> \<not> next_alloc then
           (let sz = sz + GET_SIZE s (HDRP (NEXT_BLKP s bp));
                s1 = delete_block (NEXT_BLKP s bp) s;
                s2 = PUT (HDRP bp) (PACK sz 0) s1;
                s3 = PUT (FTRP s2 bp) (PACK sz 0) s2
            in (bp, freelist bp s3))
         else if \<not> prev_alloc \<and> next_alloc then
           (let sz = sz + GET_SIZE s (HDRP (PREV_BLKP s bp));
                bp = PREV_BLKP s bp;
                s1 = delete_block bp s;
                s2 = PUT (HDRP bp) (PACK sz 0) s1;
                s3 = PUT (FTRP s2 bp) (PACK sz 0) s2
            in (bp, freelist bp s3))
         else
           (let sz = sz + GET_SIZE s (HDRP (PREV_BLKP s bp))
                            + GET_SIZE s (HDRP (NEXT_BLKP s bp));
                s1 = delete_block (PREV_BLKP s bp) s;
                s2 = delete_block (NEXT_BLKP s1 bp) s1;
                bp = PREV_BLKP s2 bp;
                s3 = PUT (HDRP bp) (PACK sz 0) s2;
                s4 = PUT (FTRP s3 bp) (PACK sz 0) s3
            in (bp, freelist bp s4)))"

definition place :: "addr \<Rightarrow> 32 word \<Rightarrow> state \<Rightarrow> state" where
  "place bp asize s =
     (let csize = GET_SIZE s (HDRP bp)
      in if csize - asize \<ge> OVERHEAD then
           (let s1 = PUT (HDRP bp) (PACK asize 1) s;
                s2 = PUT (FTRP s1 bp) (PACK asize 1) s1;
                s3 = delete_block bp s2;
                bp = NEXT_BLKP s3 bp;
                s4 = PUT (HDRP bp) (PACK (csize - asize) 0) s3;
                s5 = PUT (FTRP s4 bp) (PACK (csize - asize) 0) s4
            in snd (coalesce bp s5))
         else
           (let s1 = PUT (HDRP bp) (PACK csize 1) s;
                s2 = PUT (FTRP s1 bp) (PACK csize 1) s1
            in delete_block bp s2))"

definition extend_heap :: "32 word \<Rightarrow> state \<Rightarrow> addr \<times> state" where
  "extend_heap words s =
     (let sz = (if words mod 2 \<noteq> 0 then (words + 1) * WSIZE else words * WSIZE);
          (bp, s0) = mem_sbrk sz s
      in if bp = - 1 then (NULL, s0)
         else
           (let s1 = PUT (HDRP bp) (PACK sz 0) s0;
                s2 = PUT (FTRP s1 bp) (PACK sz 0) s1;
                s3 = PUT (HDRP (NEXT_BLKP s2 bp)) (PACK 0 1) s2
            in coalesce bp s3))"

subsection \<open>First fit\<close>

text \<open>
  The scan of \<^verbatim>\<open>find_fit\<close> follows next-pointers until it meets a node whose header
  has the allocated bit set; on a cyclic list without a fit it never returns, which
  is the value \<open>None\<close>.
\<close>

partial_function (option) find_fit_from :: "state \<Rightarrow> 32 word \<Rightarrow> addr \<Rightarrow> addr option" where
  "find_fit_from s asize bp =
     (if GET_ALLOC s (HDRP bp) = 0 then
        (if asize \<le> GET_SIZE s (HDRP bp) then Some bp
         else find_fit_from s asize (NEXT_FREE s bp))
      else Some NULL)"

definition find_fit :: "32 word \<Rightarrow> state \<Rightarrow> addr option" where
  "find_fit asize s = find_fit_from s asize (free_listp s)"

subsection \<open>The public operations\<close>

definition mm_init :: "state \<Rightarrow> int \<times> state" where
  "mm_init s =
     (let (p, s0) = mem_sbrk (2 * OVERHEAD) s;
          s0 = s0\<lparr>heap_listp := p\<rparr>
      in if heap_listp s0 = NULL then (- 1, s0)
         else
           (let s1 = PUT (heap_listp s0) 0 s0;
                s2 = PUT (heap_listp s1 + WSIZE) (PACK OVERHEAD 1) s1;
                s3 = PUT (heap_listp s2 + DSIZE + WSIZE) 0 s2;
                s4 = PUT (heap_listp s3 + DSIZE) 0 s3;
                s5 = PUT (heap_listp s4 + DSIZE) (PACK OVERHEAD 1) s4;
                s6 = PUT (heap_listp s5 + WSIZE + DSIZE) (PACK 0 1) s5;
                s7 = s6\<lparr>free_listp := heap_listp s6 + DSIZE\<rparr>;
                (bp, s8) = extend_heap (CHUNKSIZE div WSIZE) s7
            in if bp = NULL then (- 1, s8) else (0, s8)))"

definition adjust_size :: "32 word \<Rightarrow> 32 word" where
  "adjust_size sz =
     (if sz \<le> DSIZE then DSIZE + OVERHEAD
      else DSIZE * ((sz + OVERHEAD + (DSIZE - 1)) div DSIZE))"

definition mm_malloc :: "32 word \<Rightarrow> state \<Rightarrow> (addr \<times> state) option" where
  "mm_malloc sz s =
     (if sz \<le> 0 then Some (NULL, s)
      else
        (let asize = adjust_size sz
         in do {
           bp \<leftarrow> find_fit asize s;
           if bp \<noteq> NULL then Some (bp, place bp asize s)
           else
             (let extendsize = MAX_macro asize CHUNKSIZE;
                  (bp, s1) = extend_heap (extendsize div WSIZE) s
              in if bp = NULL then Some (NULL, s1)
                 else Some (bp, place bp asize s1))
         }))"

definition mm_free :: "addr \<Rightarrow> state \<Rightarrow> state" where
  "mm_free bp s =
     (if bp = NULL then s
      else
        (let sz = GET_SIZE s (HDRP bp);
             s1 = PUT (HDRP bp) (PACK sz 0) s;
             s2 = PUT (FTRP s1 bp) (PACK sz 0) s1
         in snd (coalesce bp s2)))"

definition memcpy :: "addr \<Rightarrow> addr \<Rightarrow> 32 word \<Rightarrow> state \<Rightarrow> state" where
  "memcpy dst src n s =
     s\<lparr>mem := (\<lambda>a. if a - dst < n then mem s (src + (a - dst)) else mem s a)\<rparr>"

definition mm_realloc :: "addr \<Rightarrow> 32 word \<Rightarrow> state \<Rightarrow> (error + addr \<times> state) option" where
  "mm_realloc ptr sz s =
     do {
       (newp, s1) \<leftarrow> mm_malloc sz s;
       if newp = NULL then Some (Inl (Exit 1))
       else
         (let copySize = GET_SIZE s1 (HDRP ptr);
              copySize = (if sz < copySize then sz else copySize);
              s2 = memcpy newp ptr copySize s1
          in Some (Inr (newp, mm_free ptr s2)))
     }"

subsection \<open>The consistency checker\<close>

definition check_block :: "addr \<Rightarrow> state \<Rightarrow> int" where
  "check_block bp s =
     (if (if NEXT_FREE s bp < mem_heap_lo s then True else NEXT_FREE s bp > mem_heap_hi s) then 0
      else if (if PREV_FREE s bp < mem_heap_lo s then True else PREV_FREE s bp > mem_heap_hi s) then 0
      else if bp mod 8 \<noteq> 0 then 0
      else if GET s (HDRP bp) \<noteq> GET s (FTRP s bp) then 0
      else 1)"

partial_function (option) checkheap_from :: "state \<Rightarrow> addr \<Rightarrow> int option" where
  "checkheap_from s bp =
     (if GET_ALLOC s (HDRP bp) = 0 then
        (if check_block bp s = 0 then Some 0 else checkheap_from s (NEXT_FREE s bp))
      else Some 1)"

definition mm_checkheap :: "state \<Rightarrow> int option" where
  "mm_checkheap s =
     (if (if GET_SIZE s (HDRP (heap_listp s)) \<noteq> OVERHEAD then True
          else GET_ALLOC s (HDRP (heap_listp s)) = 0) then Some 0
      else if check_block (heap_listp s) s = 0 then Some 0
      else checkheap_from s (free_listp s))"

section \<open>Observing a heap\<close>

text \<open>
  \<open>fresh_heap\<close> is the provider's region before \<^verbatim>\<open>mm_init\<close>: empty, starting at
  address \<open>0x1000\<close>, growable up to \<open>0x2000\<close>, every byte zero. A \<open>call\<close> list is a
  client program: \<open>Malloc n\<close> calls \<^verbatim>\<open>mm_malloc(n)\<close> and records the pointer,
  \<open>Free i\<close> calls \<^verbatim>\<open>mm_free\<close> on the pointer the \<open>i\<close>-th \<^verbatim>\<open>mm_malloc\<close> returned.
  \<open>heap_blocks\<close> walks the heap by block size from a block pointer up to the first
  header of size zero and lists each block with its header and footer word.
  \<open>free_chain s p xs\<close> says that the scan that starts at \<open>p\<close> and follows next-pointers
  visits exactly the nodes \<open>xs\<close>, all with a clear allocated bit, and then stands on a
  node whose allocated bit is set.
\<close>

definition fresh_heap :: state where
  "fresh_heap = \<lparr>mem = (\<lambda>_. 0), heap_listp = 0, free_listp = 0,
                  mem_start_brk = 0x1000, mem_brk = 0x1000, mem_max_addr = 0x2000\<rparr>"

definition after_init :: state where
  "after_init = snd (mm_init fresh_heap)"

datatype call = Malloc "32 word" | Free nat

fun run :: "call list \<Rightarrow> addr list \<Rightarrow> state \<Rightarrow> (addr list \<times> state) option" where
  "run [] ps s = Some (ps, s)"
| "run (Malloc n # cs) ps s = do { (p, s') \<leftarrow> mm_malloc n s; run cs (ps @ [p]) s' }"
| "run (Free i # cs) ps s = (if i < length ps then run cs ps (mm_free (ps ! i) s) else None)"

fun heap_blocks :: "nat \<Rightarrow> state \<Rightarrow> addr \<Rightarrow> (addr \<times> 32 word \<times> 32 word) list" where
  "heap_blocks 0 s bp = []"
| "heap_blocks (Suc k) s bp =
     (if GET_SIZE s (HDRP bp) = 0 then []
      else (bp, GET s (HDRP bp), GET s (FTRP s bp)) # heap_blocks k s (NEXT_BLKP s bp))"

fun free_chain :: "state \<Rightarrow> addr \<Rightarrow> addr list \<Rightarrow> bool" where
  "free_chain s p [] = (GET_ALLOC s (HDRP p) \<noteq> 0)"
| "free_chain s p (x # xs) = (x = p \<and> GET_ALLOC s (HDRP p) = 0 \<and> free_chain s (NEXT_FREE s p) xs)"

definition two_free_heap :: state where
  "two_free_heap =
     (case run [Malloc 100, Malloc 1, Malloc 1, Free 0, Free 2] [] after_init of
        Some (ps, s) \<Rightarrow> s | None \<Rightarrow> after_init)"

section \<open>Loads, stores and evaluation\<close>

lemma load32_store32_same: "load32 (store32 m p v) p = v"
  unfolding load32_def store32_def
  apply (simp)
  apply (rule bit_word_eqI)
  apply (auto simp add: bit_simps)
  done

lemma off_neq:
  fixes p q :: addr
  assumes "q - p \<noteq> j - i"
  shows "q + i \<noteq> p + j"
proof
  assume "q + i = p + j"
  then have "q - p = j - i" by (simp add: algebra_simps)
  with assms show False by simp
qed

lemma load32_store32_disj:
  assumes "q - p \<notin> {0,1,2,3}" "p - q \<notin> {1,2,3}"
  shows "load32 (store32 m p v) q = load32 m q"
proof -
  have a: "q - p \<noteq> 0" "q - p \<noteq> 1" "q - p \<noteq> 2" "q - p \<noteq> 3"
    using assms by auto
  have b: "q - p \<noteq> - 1" "q - p \<noteq> - 2" "q - p \<noteq> - 3"
    using assms(2) by (auto simp: algebra_simps)
  have n: "q + i \<noteq> p + j" if "j - i \<in> {0, 1, 2, 3, - 1, - 2, - 3}" for i j
    using that a b by (intro off_neq) auto
  have "q \<noteq> p" "q \<noteq> p + 1" "q \<noteq> p + 2" "q \<noteq> p + 3"
       "q + 1 \<noteq> p" "q + 1 \<noteq> p + 1" "q + 1 \<noteq> p + 2" "q + 1 \<noteq> p + 3"
       "q + 2 \<noteq> p" "q + 2 \<noteq> p + 1" "q + 2 \<noteq> p + 2" "q + 2 \<noteq> p + 3"
       "q + 3 \<noteq> p" "q + 3 \<noteq> p + 1" "q + 3 \<noteq> p + 2" "q + 3 \<noteq> p + 3"
    using n[of 0 0] n[of 1 0] n[of 2 0] n[of 3 0]
          n[of 0 1] n[of 1 1] n[of 2 1] n[of 3 1]
          n[of 0 2] n[of 1 2] n[of 2 2] n[of 3 2]
          n[of 0 3] n[of 1 3] n[of 2 3] n[of 3 3]
    by simp_all
  then show ?thesis
    unfolding load32_def store32_def by simp
qed

lemma load32_zero: "load32 (\<lambda>_. 0) p = 0"
  by (simp add: load32_def)

lemma GET_PUT_same: "GET (PUT p v s) p = v"
  by (simp add: GET_def PUT_def load32_store32_same)

lemma GET_PUT_disj:
  "q - p \<notin> {0,1,2,3} \<Longrightarrow> p - q \<notin> {1,2,3} \<Longrightarrow> GET (PUT p v s) q = GET s q"
  by (simp add: GET_def PUT_def load32_store32_disj)

lemma PUT_fields:
  "heap_listp (PUT p v s) = heap_listp s"
  "free_listp (PUT p v s) = free_listp s"
  "mem_start_brk (PUT p v s) = mem_start_brk s"
  "mem_brk (PUT p v s) = mem_brk s"
  "mem_max_addr (PUT p v s) = mem_max_addr s"
  by (simp_all add: PUT_def)

lemma GET_fields:
  "GET (s\<lparr>heap_listp := a\<rparr>) p = GET s p"
  "GET (s\<lparr>free_listp := a\<rparr>) p = GET s p"
  "GET (s\<lparr>mem_brk := a\<rparr>) p = GET s p"
  by (simp_all add: GET_def)

lemma fresh_simps:
  "GET fresh_heap p = 0"
  "heap_listp fresh_heap = 0"
  "free_listp fresh_heap = 0"
  "mem_start_brk fresh_heap = 0x1000"
  "mem_brk fresh_heap = 0x1000"
  "mem_max_addr fresh_heap = 0x2000"
  by (simp_all add: fresh_heap_def GET_def load32_zero)

lemmas macro_defs = WSIZE_def DSIZE_def CHUNKSIZE_def OVERHEAD_def NULL_def MAX_macro_def PACK_def
  GET_SIZE_def GET_ALLOC_def HDRP_def FTRP_def NEXT_BLKP_def PREV_BLKP_def NEXT_FREE_def PREV_FREE_def
  set_NEXT_FREE_def set_PREV_FREE_def

lemmas op_defs = mem_sbrk_def freelist_def delete_block_def coalesce_def place_def extend_heap_def
  find_fit_def mm_init_def adjust_size_def mm_malloc_def mm_free_def after_init_def
  two_free_heap_def

lemma bind_weak_cong: "x = y \<Longrightarrow> Option.bind x f = Option.bind y f"
  by simp

lemma heap_blocks_numeral:
  "heap_blocks (numeral k) s bp =
     (if GET_SIZE s (HDRP bp) = 0 then []
      else (bp, GET s (HDRP bp), GET s (FTRP s bp)) # heap_blocks (pred_numeral k) s (NEXT_BLKP s bp))"
  by (simp add: numeral_eq_Suc)

lemma memcpy_fields:
  "heap_listp (memcpy dst src n s) = heap_listp s"
  "free_listp (memcpy dst src n s) = free_listp s"
  "mem_start_brk (memcpy dst src n s) = mem_start_brk s"
  "mem_brk (memcpy dst src n s) = mem_brk s"
  "mem_max_addr (memcpy dst src n s) = mem_max_addr s"
  by (simp_all add: memcpy_def)

lemma word_off_less:
  fixes d n :: "32 word"
  assumes "d + 3 < n" "d \<le> d + 3"
  shows "d < n" "d + 1 < n" "d + 2 < n"
proof -
  have b: "unat d + 3 < 2 ^ 32"
    using assms(2) by (simp add: no_olen_add_nat)
  have u3: "unat (d + 3) = unat d + 3"
    using b by (simp add: unat_word_ariths)
  have u1: "unat (d + 1) = unat d + 1"
    using b by (simp add: unat_word_ariths)
  have u2: "unat (d + 2) = unat d + 2"
    using b by (simp add: unat_word_ariths)
  show "d < n" "d + 1 < n" "d + 2 < n"
    using assms(1) u1 u2 u3 by (simp_all add: word_less_nat_alt)
qed

lemma GET_memcpy_inside:
  assumes "q - dst + 3 < n" "q - dst \<le> q - dst + 3"
  shows "GET (memcpy dst src n s) q = GET s (src + (q - dst))"
proof -
  have e: "q + 1 - dst = q - dst + 1" "q + 2 - dst = q - dst + 2" "q + 3 - dst = q - dst + 3"
    by simp_all
  show ?thesis
    using assms(1) word_off_less[OF assms]
    by (simp add: GET_def memcpy_def load32_def e add.assoc)
qed

lemma GET_memcpy_outside:
  assumes "n \<le> q - dst" "n \<le> q - dst + 1" "n \<le> q - dst + 2" "n \<le> q - dst + 3"
  shows "GET (memcpy dst src n s) q = GET s q"
proof -
  have e: "q + 1 - dst = q - dst + 1" "q + 2 - dst = q - dst + 2" "q + 3 - dst = q - dst + 3"
    by simp_all
  show ?thesis
    using assms by (simp add: GET_def memcpy_def load32_def e not_less [symmetric])
qed

lemmas eval_simps = macro_defs op_defs GET_PUT_same GET_PUT_disj PUT_fields GET_fields fresh_simps
  Let_def find_fit_from.simps run.simps heap_blocks.simps(1) heap_blocks_numeral
  memcpy_fields GET_memcpy_inside GET_memcpy_outside mm_realloc_def

lemmas eval_congs = let_weak_cong bind_weak_cong prod.case_cong_weak option.case_cong_weak

section \<open>First fit\<close>

lemma find_fit_from_chain:
  "free_chain s p xs \<Longrightarrow>
   find_fit_from s asize p =
     Some (case List.find (\<lambda>b. asize \<le> GET_SIZE s (HDRP b)) xs of None \<Rightarrow> NULL | Some b \<Rightarrow> b)"
proof (induction xs arbitrary: p)
  case Nil
  then show ?case by (subst find_fit_from.simps) simp
next
  case (Cons x xs)
  from Cons.prems have x: "x = p" and a: "GET_ALLOC s (HDRP p) = 0"
    and c: "free_chain s (NEXT_FREE s p) xs" by simp_all
  show ?case
    by (subst find_fit_from.simps) (simp add: x a Cons.IH[OF c])
qed

text \<open>
  Claim C5. When the scan from the head of the free list visits the free nodes \<open>xs\<close>
  before it meets an allocated-marked node, \<^verbatim>\<open>find_fit(asize)\<close> returns, and its
  result is the first node of \<open>xs\<close>, in scan order, whose size is at least \<open>asize\<close>,
  or \<^verbatim>\<open>NULL\<close> when no node of \<open>xs\<close> is large enough.
\<close>

theorem find_fit_first_fit:
  assumes "free_chain s (free_listp s) xs"
  shows "find_fit asize s =
     Some (case List.find (\<lambda>b. asize \<le> GET_SIZE s (HDRP b)) xs of None \<Rightarrow> NULL | Some b \<Rightarrow> b)"
  using assms by (simp add: find_fit_def find_fit_from_chain)

lemma two_free_heap_obs:
  "free_listp two_free_heap = 0x10f0"
  "GET two_free_heap 0x10ec = 72" "GET two_free_heap 0x10f8 = 0x1040"
  "GET two_free_heap 0x103c = 136" "GET two_free_heap 0x1048 = 0x1008"
  "GET two_free_heap 0x1004 = 33"
  by (simp_all add: eval_simps cong: eval_congs)

text \<open>
  The heap reached by \<^verbatim>\<open>a = malloc(100); b = malloc(1); c = malloc(1); free(a); free(c)\<close>
  has the free list \<open>0x10f0\<close> (72 bytes), \<open>0x1040\<close> (136 bytes): a request adjusted to
  136 bytes skips the head and is served by the second node.
\<close>

theorem find_fit_first_fit_witness:
  "free_chain two_free_heap (free_listp two_free_heap) [0x10f0, 0x1040] \<and>
   find_fit 136 two_free_heap = Some 0x1040 \<and>
   find_fit 40 two_free_heap = Some 0x10f0 \<and>
   find_fit 200 two_free_heap = Some NULL"
proof -
  have c: "free_chain two_free_heap (free_listp two_free_heap) [0x10f0, 0x1040]"
    by (simp add: two_free_heap_obs macro_defs)
  show ?thesis
    using c find_fit_first_fit[OF c, of 136] find_fit_first_fit[OF c, of 40]
      find_fit_first_fit[OF c, of 200]
    by (simp add: two_free_heap_obs macro_defs)
qed

section \<open>Reallocation to size zero\<close>

text \<open>
  Claim C9. \<^verbatim>\<open>mm_realloc(p, 0)\<close> does not return: the inner \<^verbatim>\<open>mm_malloc(0)\<close> yields
  \<^verbatim>\<open>NULL\<close> and leaves the heap as it is, and \<^verbatim>\<open>mm_realloc\<close> answers \<^verbatim>\<open>NULL\<close> with
  \<^verbatim>\<open>exit(1)\<close>; \<open>p\<close> is neither freed nor is \<^verbatim>\<open>NULL\<close> returned.
\<close>

theorem realloc_zero_exits:
  "mm_malloc 0 s = Some (NULL, s) \<and> mm_realloc p 0 s = Some (Inl (Exit 1))"
  by (simp add: mm_realloc_def mm_malloc_def)

section \<open>The prologue after initialisation\<close>

text \<open>
  Claim C2 (header equals footer for every block, the prologue included, after every
  public operation). On the fresh heap \<^verbatim>\<open>mm_init\<close> succeeds. Afterwards the prologue
  header at \<open>heap_listp + WSIZE\<close> holds \<open>PACK OVERHEAD 1\<close>, but the word that \<^verbatim>\<open>mm_init\<close>
  wrote as the prologue footer, at \<open>heap_listp + DSIZE\<close>, holds the address of the first
  free block: \<^verbatim>\<open>freelist\<close> stored the previous-pointer of the list's end node there.
  The word that \<^verbatim>\<open>FTRP\<close> computes as the footer of the block at \<open>heap_listp + DSIZE\<close>
  was never written and holds 0.
\<close>

theorem init_prologue_footer_differs:
  "fst (mm_init fresh_heap) = 0 \<and>
   heap_listp after_init = 0x1000 \<and>
   GET after_init (heap_listp after_init + WSIZE) = PACK OVERHEAD 1 \<and>
   GET after_init (heap_listp after_init + DSIZE) = 0x1040 \<and>
   FTRP after_init (heap_listp after_init + DSIZE) = 0x1020 \<and>
   GET after_init (FTRP after_init (heap_listp after_init + DSIZE)) = 0"
  by (simp add: eval_simps cong: eval_congs)

section \<open>Requests whose adjusted size wraps around\<close>

text \<open>
  For a request of \<open>2 ^ 32 - 39\<close> bytes the sum \<^verbatim>\<open>size + OVERHEAD + (DSIZE-1)\<close> wraps
  to 0, so the adjusted block size is 0.
\<close>

lemma adjust_size_wraps: "adjust_size 0xFFFFFFD9 = 0"
  by (simp add: adjust_size_def macro_defs)

text \<open>
  Claim C8 (a successful \<^verbatim>\<open>mm_malloc(n)\<close> returns an aligned pointer to an allocated
  block of usable size at least \<open>n\<close> that is absent from the free list). After
  \<^verbatim>\<open>mm_init\<close>, \<^verbatim>\<open>mm_malloc(4294967257)\<close> returns the non-null pointer \<open>0x1040\<close>; the
  header of that block is 32, that is size 32 with the allocated bit clear, and the
  block is the head of the free list.
\<close>

theorem malloc_wrapped_size_returns_free_block:
  "map_option (\<lambda>(p, s). (p, GET s (HDRP p), free_listp s)) (mm_malloc 0xFFFFFFD9 after_init)
     = Some (0x1040, 32, 0x1040)"
  by (simp add: eval_simps cong: eval_congs)

text \<open>
  Claim C10 (in every reachable state the next-pointer of the last free block designates
  an allocated-marked node). After \<^verbatim>\<open>mm_init\<close>, \<^verbatim>\<open>q = mm_malloc(4294967257)\<close> and
  \<^verbatim>\<open>mm_free(q)\<close>, the head of the free list is \<open>0x1040\<close>, its allocated bit is clear and
  its next-pointer is \<open>0x1040\<close> again: the list is a cycle with no allocated-marked
  node on it.
\<close>

theorem free_list_cycle_after_wrapped_request:
  "map_option (\<lambda>(ps, s). (ps, free_listp s, GET_ALLOC s (HDRP (free_listp s)),
                          NEXT_FREE s (free_listp s)))
     (run [Malloc 0xFFFFFFD9, Free 0] [] after_init) = Some ([0x1040], 0x1040, 0, 0x1040)"
  by (simp add: eval_simps cong: eval_congs)

text \<open>
  Claim C3 (no two physically adjacent blocks are both free after any sequence of
  allocate and free calls). After \<^verbatim>\<open>mm_init\<close> the calls
  \<^verbatim>\<open>a = malloc(33); q = malloc(4294967257); free(a); b = malloc(1); free(q); c = malloc(33)\<close>
  return \<open>0x1040, 0x1088, 0x1040, 0x1088\<close>, and the walk over the heap from its first
  block finds the block \<open>0x1040\<close> with header 41, then \<open>0x1068\<close> with header 64 and
  \<open>0x10a8\<close> with header 72: two neighbours whose allocated bits are both clear.
\<close>

theorem adjacent_free_blocks_after_wrapped_request:
  "map_option (\<lambda>(ps, s). (ps, heap_blocks 4 s (heap_listp s + 64)))
     (run [Malloc 33, Malloc 0xFFFFFFD9, Free 0, Malloc 1, Free 1, Malloc 33] [] after_init)
   = Some ([0x1040, 0x1088, 0x1040, 0x1088],
           [(0x1040, 41, 41), (0x1068, 64, 32), (0x10a8, 72, 32)])"
  by (simp add: eval_simps cong: eval_congs)

end
